theory Spec2Isabelle
  imports Main
begin

section \<open>The privacy audit recorder of \<open>src/privacyAudit.ts\<close>\<close>

text \<open>
  The class \<open>PrivacyAuditSystem\<close> keeps an ordered in-memory log of audit entries.
  Its methods are modelled as functions that take the recorder state and return the
  new one. Everything the source takes from the clock or from \<open>Math.random\<close> is an
  explicit argument (a \<open>Draw\<close>), so the model is deterministic and can be evaluated.
  Console output (\<open>logToConsole\<close>, \<open>console.log\<close>) does not touch the recorder and is
  left out. The module constant \<open>AUDIT_CONFIG\<close> is read by the methods; here the
  configuration is a parameter and \<open>AUDIT_CONFIG\<close> is the value the source gives it.
\<close>

subsection \<open>Data model\<close>

datatype Status = Verified | Recorded | Exported | Pending | Failed

datatype RiskLevel = LOW | MEDIUM | HIGH | CRITICAL

datatype EncryptionLevel = AES_256 | CHACHA20 | ZK_SNARK

text \<open>
  \<open>Record<string, string>\<close>: the keys in insertion order with their values; a
  property read is \<open>map_of\<close>.
\<close>

type_synonym Meta = "(string \<times> string) list"

text \<open>
  \<open>interface AuditEntry\<close>. The fields \<open>id\<close>, \<open>type\<close> and \<open>sessionId\<close> are named
  \<open>entry_id\<close>, \<open>entry_type\<close> and \<open>entry_sessionId\<close>. The type is kept as the string
  JavaScript has at run time (\<open>calculateRiskLevel\<close> declares \<open>type: string\<close>).
\<close>

record AuditEntry =
  entry_id :: string
  timestamp :: string
  entry_type :: string
  message :: string
  meta :: "Meta option"
  status :: Status
  integrityHash :: "string option"
  entry_sessionId :: string
  durationMs :: "nat option"
  riskLevel :: RiskLevel

text \<open>
  \<open>interface AuditStats\<close>. \<open>byType\<close> is keyed by \<open>entry.type\<close>, a string at run time, and the
  value the code stores under such a key is a number or a string (see \<open>bump_type\<close>);
  \<open>byStatus\<close> and \<open>byRiskLevel\<close> are keyed by the values of the two unions.
\<close>

datatype JsValue = Num nat | Str string

record AuditStats =
  totalRecords :: nat
  byType :: "(string \<times> JsValue) list"
  byStatus :: "(Status \<times> nat) list"
  byRiskLevel :: "(RiskLevel \<times> nat) list"
  firstRecord :: "string option"
  lastRecord :: "string option"

record AuditConfig =
  autoExport :: bool
  maxEntries :: int
  riskThreshold :: RiskLevel
  enableCompression :: bool
  encryptionLevel :: EncryptionLevel

definition AUDIT_CONFIG :: AuditConfig where
  "AUDIT_CONFIG =
     \<lparr>autoExport = True, maxEntries = 10000, riskThreshold = HIGH,
      enableCompression = True, encryptionLevel = ZK_SNARK\<rparr>"

text \<open>The private fields of \<open>class PrivacyAuditSystem\<close>.\<close>

record PrivacyAuditSystem =
  auditLog :: "AuditEntry list"
  sessionId :: string
  isExporting :: bool
  startupTime :: string

text \<open>
  What one call of \<open>recordEvent\<close> or \<open>exportAuditLog\<close> reads from outside the
  recorder: \<open>Date.now().toString(36)\<close> and the random suffix of \<open>generateId\<close>, the
  result of \<open>now()\<close>, the index \<open>Math.floor(Math.random() * array.length)\<close> of
  \<open>randomElement\<close>, the result of \<open>generateIntegrityHash()\<close>, and
  \<open>Math.round(processingDelay)\<close>.
\<close>

record Draw =
  time36 :: string
  rand36 :: string
  now_str :: string
  rand_index :: nat
  hash_str :: string
  delay_ms :: nat

subsection \<open>Utility functions\<close>

definition generateId :: "string \<Rightarrow> Draw \<Rightarrow> string" where
  "generateId prefix d = prefix @ ''-'' @ time36 d @ ''-'' @ rand36 d"

text \<open>\<open>randomElement\<close>: the index is below the length of the array.\<close>

definition randomElement :: "'a list \<Rightarrow> nat \<Rightarrow> 'a" where
  "randomElement array r = array ! (r mod length array)"

definition calculateRiskLevel :: "string \<Rightarrow> Meta option \<Rightarrow> RiskLevel" where
  "calculateRiskLevel type m =
     (if type = ''system'' then LOW
      else if type = ''verification'' then MEDIUM
      else if type = ''inference'' then
        (if (case m of None \<Rightarrow> False | Some kv \<Rightarrow> map_of kv ''sensitivity'' = Some ''high'')
         then HIGH else MEDIUM)
      else if type = ''proof'' then
        (if (case m of None \<Rightarrow> False | Some kv \<Rightarrow> map_of kv ''complexity'' = Some ''high'')
         then HIGH else MEDIUM)
      else LOW)"

text \<open>
  \<open>Array.prototype.slice(start)\<close> with one integer argument: a negative start counts
  from the end and is clamped at the first element, \<open>-0\<close> is \<open>0\<close>, and a start beyond
  the end gives the empty array.
\<close>

definition slice_from :: "int \<Rightarrow> 'a list \<Rightarrow> 'a list" where
  "slice_from start xs =
     (if start < 0 then drop (nat (int (length xs) + start)) xs else drop (nat start) xs)"

text \<open>
  \<open>Number.prototype.toString()\<close> on a non-negative integer, and on an integer: the
  decimal digits, which is what JavaScript prints for an integer of magnitude below
  \<open>10^21\<close> (from there on it prints exponent notation, which these two functions do not
  model).
\<close>

fun toString_nat :: "nat \<Rightarrow> string" where
  "toString_nat n =
     (if n < 10 then [''0123456789'' ! n]
      else toString_nat (n div 10) @ [''0123456789'' ! (n mod 10)])"

definition toString_int :: "int \<Rightarrow> string" where
  "toString_int i = (if i < 0 then ''-'' @ toString_nat (nat (- i)) else toString_nat (nat i))"

definition encryptionLevel_str :: "EncryptionLevel \<Rightarrow> string" where
  "encryptionLevel_str l =
     (case l of AES_256 \<Rightarrow> ''AES-256'' | CHACHA20 \<Rightarrow> ''CHACHA20'' | ZK_SNARK \<Rightarrow> ''ZK-SNARK'')"

subsection \<open>\<open>recordEvent\<close>\<close>

text \<open>The object literal \<open>entry\<close> that \<open>recordEvent\<close> builds.\<close>

definition mk_entry :: "Draw \<Rightarrow> string \<Rightarrow> string \<Rightarrow> string \<Rightarrow> Meta option \<Rightarrow> AuditEntry" where
  "mk_entry d sid type msg m =
     \<lparr>entry_id = generateId ''AUD'' d,
      timestamp = now_str d,
      entry_type = type,
      message = msg,
      meta = m,
      status = randomElement [Verified, Recorded, Pending] (rand_index d),
      integrityHash = Some (hash_str d),
      entry_sessionId = sid,
      durationMs = Some (delay_ms d),
      riskLevel = calculateRiskLevel type m\<rparr>"

text \<open>
  \<open>this.auditLog.push(entry)\<close> followed by the retention policy: when the log is
  longer than \<open>maxEntries\<close> it is replaced by \<open>slice(-maxEntries)\<close>.
\<close>

definition push_retain :: "AuditConfig \<Rightarrow> AuditEntry \<Rightarrow> AuditEntry list \<Rightarrow> AuditEntry list" where
  "push_retain cfg entry log =
     (let log1 = log @ [entry]
      in if int (length log1) > maxEntries cfg then slice_from (- maxEntries cfg) log1 else log1)"

text \<open>
  \<open>recordEvent\<close> ends by calling the \<open>async\<close> method \<open>autoExport\<close> when the log length
  is a multiple of ten. An \<open>async\<close> function runs synchronously up to its first
  \<open>await\<close> that suspends, so inside that call \<open>autoExport\<close> calls \<open>exportAuditLog\<close>, which
  (unless an export is in progress) sets \<open>isExporting\<close> and calls \<open>recordEvent\<close> for
  its own system entry before it reaches \<open>await sleep\<close>. The three methods are
  mutually recursive; \<open>exportAuditLog_start\<close> is \<open>exportAuditLog\<close> up to that
  \<open>await\<close>, and \<open>autoExport_call\<close> is the method \<open>autoExport\<close>. The draws of a call are
  numbered: a method uses draw \<open>0\<close> and hands the rest to the method it calls.
\<close>

function recordEvent ::
    "AuditConfig \<Rightarrow> (nat \<Rightarrow> Draw) \<Rightarrow> string \<Rightarrow> string \<Rightarrow> Meta option \<Rightarrow>
     PrivacyAuditSystem \<Rightarrow> PrivacyAuditSystem"
  and autoExport_call ::
    "AuditConfig \<Rightarrow> (nat \<Rightarrow> Draw) \<Rightarrow> PrivacyAuditSystem \<Rightarrow> PrivacyAuditSystem"
  and exportAuditLog_start ::
    "AuditConfig \<Rightarrow> (nat \<Rightarrow> Draw) \<Rightarrow> PrivacyAuditSystem \<Rightarrow> PrivacyAuditSystem"
where
  "recordEvent cfg rnd type msg m s =
     (if autoExport cfg \<and>
         length (push_retain cfg (mk_entry (rnd 0) (sessionId s) type msg m) (auditLog s)) mod 10 = 0
      then autoExport_call cfg (\<lambda>k. rnd (Suc k))
             (s\<lparr>auditLog := push_retain cfg (mk_entry (rnd 0) (sessionId s) type msg m) (auditLog s)\<rparr>)
      else s\<lparr>auditLog := push_retain cfg (mk_entry (rnd 0) (sessionId s) type msg m) (auditLog s)\<rparr>)"
| "autoExport_call cfg rnd s =
     (if \<not> autoExport cfg then s else exportAuditLog_start cfg rnd s)"
| "exportAuditLog_start cfg rnd s =
     (if isExporting s then s
      else recordEvent cfg (\<lambda>k. rnd (Suc k)) ''system''
             (''Starting audit log export: '' @ generateId ''EXP'' (rnd 0))
             (Some [(''records'', toString_nat (length (auditLog s))), (''format'', ''JSON'')])
             (s\<lparr>isExporting := True\<rparr>))"
  by pat_completeness auto
termination
  by (relation "measure (\<lambda>x. case x of
         Inl (cfg, rnd, type, msg, m, s) \<Rightarrow> (if isExporting s then 2 else 5)
       | Inr (Inl (cfg, rnd, s)) \<Rightarrow> (if isExporting s then 1 else 4)
       | Inr (Inr (cfg, rnd, s)) \<Rightarrow> (if isExporting s then 0 else 3))") auto

text \<open>
  \<open>recordEvent\<close> is declared \<open>void\<close> and has no \<open>return\<close> statement: the value of a call
  is \<open>undefined\<close>, which is \<open>None\<close> here.
\<close>

definition recordEvent_value ::
    "AuditConfig \<Rightarrow> (nat \<Rightarrow> Draw) \<Rightarrow> string \<Rightarrow> string \<Rightarrow> Meta option \<Rightarrow>
     PrivacyAuditSystem \<Rightarrow> AuditEntry option" where
  "recordEvent_value cfg rnd type msg m s = None"

subsection \<open>The rest of \<open>exportAuditLog\<close>\<close>

text \<open>
  What \<open>exportAuditLog\<close> does when it resumes after \<open>await sleep\<close>: it writes the file
  and records the success, or records the failure when the \<open>try\<close> block threw
  (\<open>err\<close> is the error message then); \<open>finally\<close> clears \<open>isExporting\<close>. The export id
  is the one drawn at the start; the file path and the formatted file size are given.
\<close>

definition exportAuditLog_finish ::
    "AuditConfig \<Rightarrow> (nat \<Rightarrow> Draw) \<Rightarrow> string \<Rightarrow> string \<Rightarrow> string \<Rightarrow> string option \<Rightarrow>
     PrivacyAuditSystem \<Rightarrow> PrivacyAuditSystem" where
  "exportAuditLog_finish cfg rnd exportId finalFilePath fileSize err s =
     (case err of
        None \<Rightarrow>
          (recordEvent cfg rnd ''system'' ''Audit log exported successfully''
             (Some [(''exportId'', exportId), (''filePath'', finalFilePath),
                    (''records'', toString_nat (length (auditLog s))),
                    (''fileSize'', fileSize @ ''KB'')]) s)
          \<lparr>isExporting := False\<rparr>
      | Some errorMessage \<Rightarrow>
          (recordEvent cfg rnd ''system'' ''Audit log export failed''
             (Some [(''exportId'', exportId), (''error'', errorMessage),
                    (''status'', ''Failed'')]) s)
          \<lparr>isExporting := False\<rparr>)"

subsection \<open>The constructor\<close>

text \<open>
  The field initialisers and the constructor body; \<open>sid\<close> is the result of
  \<open>generateSessionId()\<close> and \<open>start\<close> the result of \<open>now()\<close>.
\<close>

definition new_PrivacyAuditSystem ::
    "AuditConfig \<Rightarrow> string \<Rightarrow> string \<Rightarrow> (nat \<Rightarrow> Draw) \<Rightarrow> PrivacyAuditSystem" where
  "new_PrivacyAuditSystem cfg sid start rnd =
     recordEvent cfg rnd ''system'' ''Privacy Audit System initialized''
       (Some [(''version'', ''2.1.0''),
              (''encryption'', encryptionLevel_str (encryptionLevel cfg)),
              (''sessionId'', sid)])
       \<lparr>auditLog = [], sessionId = sid, isExporting = False, startupTime = start\<rparr>"

subsection \<open>\<open>getAuditTrail\<close>\<close>

text \<open>
  \<open>limit\<close> is \<open>None\<close> when the argument is absent and an integer otherwise (a number
  with a fraction, \<open>NaN\<close> or an infinity is not modelled). The test \<open>limit ? ... : ...\<close> is on the
  truthiness of the number, so \<open>0\<close> takes the branch of the absent limit. \<open>queryTime\<close>
  is \<open>queryTime.toFixed(2)\<close>. The result is the array and the new state.
\<close>

definition getAuditTrail ::
    "AuditConfig \<Rightarrow> (nat \<Rightarrow> Draw) \<Rightarrow> string \<Rightarrow> int option \<Rightarrow> PrivacyAuditSystem \<Rightarrow>
     AuditEntry list \<times> PrivacyAuditSystem" where
  "getAuditTrail cfg rnd queryTime limit s =
     (let records =
            (case limit of
               None \<Rightarrow> auditLog s
             | Some l \<Rightarrow> if l \<noteq> 0 then slice_from (- l) (auditLog s) else auditLog s)
      in (records,
          recordEvent cfg rnd ''system''
            (''Audit trail queried - '' @ toString_nat (length records) @ '' records retrieved'')
            (Some [(''limit'', (case limit of None \<Rightarrow> ''none'' | Some l \<Rightarrow> toString_int l)),
                   (''queryTime'', queryTime @ ''ms'')])
            s))"

subsection \<open>\<open>getStats\<close>\<close>

text \<open>
  \<open>counts[k] = (counts[k] || 0) + 1\<close> on an object that starts as \<open>{}\<close>, for the keys of
  \<open>byStatus\<close> and \<open>byRiskLevel\<close>: these are the names of the two unions, none of which
  is an integer index or a property of \<open>Object.prototype\<close>, so an absent key reads as
  \<open>undefined\<close> and a new key is added after the others.
\<close>

fun bump :: "'k \<Rightarrow> ('k \<times> nat) list \<Rightarrow> ('k \<times> nat) list" where
  "bump k [] = [(k, 1)]"
| "bump k (p # ps) = (if fst p = k then (k, snd p + 1) # ps else p # bump k ps)"

text \<open>
  The same statement for \<open>byType\<close>, whose key is any string. The object is the list of
  its own properties in the order JavaScript enumerates them: the keys that are array
  indices (canonical decimal numerals below \<open>2^32 - 1\<close>) in ascending order, then the
  other keys in the order of their creation.
\<close>

definition digit_val :: "char \<Rightarrow> nat" where
  "digit_val c = length (takeWhile (\<lambda>d. d \<noteq> c) ''0123456789'')"

definition index_val :: "string \<Rightarrow> nat" where
  "index_val k = foldl (\<lambda>a c. 10 * a + digit_val c) 0 k"

definition is_array_index :: "string \<Rightarrow> bool" where
  "is_array_index k =
     (k \<noteq> [] \<and> list_all (\<lambda>c. digit_val c < 10) k \<and> (k = ''0'' \<or> hd k \<noteq> CHR ''0'') \<and>
      index_val k < 4294967295)"

fun insert_key :: "string \<Rightarrow> JsValue \<Rightarrow> (string \<times> JsValue) list \<Rightarrow> (string \<times> JsValue) list" where
  "insert_key k v [] = [(k, v)]"
| "insert_key k v (p # ps) =
     (if is_array_index k \<and> (\<not> is_array_index (fst p) \<or> index_val k < index_val (fst p))
      then (k, v) # p # ps else p # insert_key k v ps)"

fun replace_value :: "string \<Rightarrow> JsValue \<Rightarrow> (string \<times> JsValue) list \<Rightarrow> (string \<times> JsValue) list" where
  "replace_value k v [] = []"
| "replace_value k v (p # ps) = (if fst p = k then (k, v) # ps else p # replace_value k v ps)"

text \<open>
  \<open>(x || 0) + 1\<close> for an own property \<open>x\<close>: a number is incremented (\<open>0\<close> is falsy and
  gives \<open>1\<close> as well); a non-empty string is truthy and \<open>+\<close> appends \<open>1\<close> to it.
\<close>

definition own_plus_one :: "JsValue \<Rightarrow> JsValue" where
  "own_plus_one x = (case x of Num n \<Rightarrow> Num (n + 1) | Str t \<Rightarrow> if t = [] then Num 1 else Str (t @ ''1''))"

text \<open>
  \<open>(x || 0) + 1\<close> when the object has no own property \<open>k\<close>: the read goes to
  \<open>Object.prototype\<close>. For \<open>constructor\<close> it finds the function \<open>Object\<close> and for the
  method names the method; a function is truthy and \<open>+\<close> appends \<open>1\<close> to its source text,
  which Node.js prints as \<open>function name() { [native code] }\<close>. For any other key
  (\<open>__proto__\<close> apart, see \<open>bump_type\<close>) the read gives \<open>undefined\<close> and the result is \<open>1\<close>.
\<close>

definition prototype_methods :: "string list" where
  "prototype_methods =
     [''__defineGetter__'', ''__defineSetter__'', ''hasOwnProperty'', ''__lookupGetter__'',
      ''__lookupSetter__'', ''isPrototypeOf'', ''propertyIsEnumerable'', ''toString'',
      ''valueOf'', ''toLocaleString'']"

definition inherited_plus_one :: "string \<Rightarrow> JsValue" where
  "inherited_plus_one k =
     (if k = ''constructor'' then Str ''function Object() { [native code] }1''
      else if k \<in> set prototype_methods then Str (''function '' @ k @ ''() { [native code] }1'')
      else Num 1)"

text \<open>
  The assignment updates an own property in place and otherwise creates one (the
  properties of \<open>Object.prototype\<close> are writable, so they do not prevent it). The key
  \<open>__proto__\<close> is an accessor of \<open>Object.prototype\<close>: the read gives an object, the value
  to assign is the string \<open>[object Object]1\<close>, and the setter ignores a value that is
  neither an object nor \<open>null\<close>, so nothing is stored.
\<close>

definition bump_type :: "string \<Rightarrow> (string \<times> JsValue) list \<Rightarrow> (string \<times> JsValue) list" where
  "bump_type k counts =
     (case map_of counts k of
        Some x \<Rightarrow> replace_value k (own_plus_one x) counts
      | None \<Rightarrow> if k = ''__proto__'' then counts else insert_key k (inherited_plus_one k) counts)"

text \<open>\<open>x?.timestamp || null\<close>: \<open>undefined\<close> and the empty string both give \<open>null\<close>.\<close>

definition or_null :: "string option \<Rightarrow> string option" where
  "or_null x = (case x of None \<Rightarrow> None | Some t \<Rightarrow> if t = [] then None else Some t)"

definition count_entry :: "AuditEntry \<Rightarrow> AuditStats \<Rightarrow> AuditStats" where
  "count_entry entry stats =
     stats\<lparr>byType := bump_type (entry_type entry) (byType stats),
           byStatus := bump (status entry) (byStatus stats),
           byRiskLevel := bump (riskLevel entry) (byRiskLevel stats)\<rparr>"

definition getStats :: "PrivacyAuditSystem \<Rightarrow> AuditStats \<times> PrivacyAuditSystem" where
  "getStats s =
     (fold count_entry (auditLog s)
        \<lparr>totalRecords = length (auditLog s),
         byType = [], byStatus = [], byRiskLevel = [],
         firstRecord =
           or_null (case auditLog s of [] \<Rightarrow> None | e # _ \<Rightarrow> Some (timestamp e)),
         lastRecord =
           or_null (if auditLog s = [] then None else Some (timestamp (last (auditLog s))))\<rparr>,
      s)"

section \<open>Definitions used to state the properties\<close>

text \<open>
  The entry that \<open>exportAuditLog\<close> records when \<open>recordEvent\<close> reaches it through
  \<open>autoExport\<close>: the export id comes from draw \<open>1\<close> of the call and the entry from
  draw \<open>2\<close>; \<open>n\<close> is the log length at that moment.
\<close>

definition start_entry :: "(nat \<Rightarrow> Draw) \<Rightarrow> string \<Rightarrow> nat \<Rightarrow> AuditEntry" where
  "start_entry rnd sid n =
     mk_entry (rnd 2) sid ''system''
       (''Starting audit log export: '' @ generateId ''EXP'' (rnd 1))
       (Some [(''records'', toString_nat n), (''format'', ''JSON'')])"

text \<open>
  The entries pushed by the automatic export during one \<open>recordEvent\<close>, given the log
  \<open>log1\<close> as it is after the caller's entry was pushed and the retention policy applied.
\<close>

definition auto_entries ::
    "AuditConfig \<Rightarrow> (nat \<Rightarrow> Draw) \<Rightarrow> PrivacyAuditSystem \<Rightarrow> AuditEntry list \<Rightarrow> AuditEntry list" where
  "auto_entries cfg rnd s log1 =
     (if autoExport cfg \<and> length log1 mod 10 = 0 \<and> \<not> isExporting s
      then [start_entry rnd (sessionId s) (length log1)] else [])"

text \<open>The entry that \<open>getAuditTrail\<close> records about the query, \<open>n\<close> being \<open>records.length\<close>.\<close>

definition query_entry ::
    "(nat \<Rightarrow> Draw) \<Rightarrow> string \<Rightarrow> string \<Rightarrow> int option \<Rightarrow> nat \<Rightarrow> AuditEntry" where
  "query_entry rnd sid queryTime limit n =
     mk_entry (rnd 0) sid ''system''
       (''Audit trail queried - '' @ toString_nat n @ '' records retrieved'')
       (Some [(''limit'', (case limit of None \<Rightarrow> ''none'' | Some l \<Rightarrow> toString_int l)),
              (''queryTime'', queryTime @ ''ms'')])"

text \<open>The last \<open>n\<close> elements of a list, in their order.\<close>

definition lastn :: "nat \<Rightarrow> 'a list \<Rightarrow> 'a list" where
  "lastn n xs = drop (length xs - n) xs"

text \<open>A sequence of \<open>recordEvent\<close> calls made one after the other, each with its draws.\<close>

type_synonym Call = "(nat \<Rightarrow> Draw) \<times> string \<times> string \<times> Meta option"

fun recordEvents :: "AuditConfig \<Rightarrow> Call list \<Rightarrow> PrivacyAuditSystem \<Rightarrow> PrivacyAuditSystem" where
  "recordEvents cfg [] s = s"
| "recordEvents cfg ((rnd, type, msg, m) # cs) s =
     recordEvents cfg cs (recordEvent cfg rnd type msg m s)"

definition entry_of :: "string \<Rightarrow> Call \<Rightarrow> AuditEntry" where
  "entry_of sid c = (case c of (rnd, type, msg, m) \<Rightarrow> mk_entry (rnd 0) sid type msg m)"









text \<open>
  The risk rule in the words of the specification, on a category and a metadata
  mapping; an absent \<open>meta\<close> is the empty mapping.
\<close>

definition meta_map :: "Meta option \<Rightarrow> (string \<rightharpoonup> string)" where
  "meta_map m = (case m of None \<Rightarrow> Map.empty | Some kv \<Rightarrow> map_of kv)"

definition spec_riskLevel :: "string \<Rightarrow> (string \<rightharpoonup> string) \<Rightarrow> RiskLevel" where
  "spec_riskLevel category metadata =
     (if category = ''system'' then LOW
      else if category = ''verification'' then MEDIUM
      else if category = ''inference'' then
        (if metadata ''sensitivity'' = Some ''high'' then HIGH else MEDIUM)
      else if category = ''proof'' then
        (if metadata ''complexity'' = Some ''high'' then HIGH else MEDIUM)
      else LOW)"

text \<open>Every entry of the log carries the session id of the recorder.\<close>

definition session_inv :: "PrivacyAuditSystem \<Rightarrow> bool" where
  "session_inv s = list_all (\<lambda>e. entry_sessionId e = sessionId s) (auditLog s)"

text \<open>The four types of the union that \<open>interface AuditEntry\<close> declares for \<open>type\<close>.\<close>

definition valid_type :: "string \<Rightarrow> bool" where
  "valid_type type = (type \<in> set [''proof'', ''inference'', ''verification'', ''system''])"

definition typed_log :: "AuditEntry list \<Rightarrow> bool" where
  "typed_log log = list_all (\<lambda>e. valid_type (entry_type e)) log"




text \<open>The count \<open>byStatus\<close> or \<open>byRiskLevel\<close> holds for a key, \<open>0\<close> when the key is absent.\<close>

definition count_of :: "('k \<times> nat) list \<Rightarrow> 'k \<Rightarrow> nat" where
  "count_of counts k = (case map_of counts k of None \<Rightarrow> 0 | Some n \<Rightarrow> n)"

subsection \<open>A concrete run\<close>

text \<open>
  Draws with distinct ids and increasing timestamps, a recorder under \<open>AUDIT_CONFIG\<close>
  fresh from the constructor, the same recorder after eight events (nine entries with
  the constructor's own), the fresh recorder after a call whose type is the string
  \<open>constructor\<close>, a run on the nine entries in which an export resumes between two
  appends, four events with the categories \<open>system\<close>, \<open>proof\<close>, \<open>inference\<close>,
  \<open>verification\<close>, and a recorder whose configuration keeps three entries.
\<close>

definition demo_draw :: "nat \<Rightarrow> Draw" where
  "demo_draw n =
     \<lparr>time36 = ''lq3k9x2a'', rand36 = ''K7Q'' @ toString_nat (100 + n),
      now_str = ''2024-01-01 12:00:'' @ toString_nat (10 + n), rand_index = n div 3,
      hash_str = ''0x3f9a1c0e5b7d2468ace013579bdf02468ace13579bdf0123456789abcdef0f1e'',
      delay_ms = 100\<rparr>"

definition demo_rnd :: "nat \<Rightarrow> nat \<Rightarrow> Draw" where
  "demo_rnd i k = demo_draw (3 * i + k)"

definition demo_new :: PrivacyAuditSystem where
  "demo_new =
     new_PrivacyAuditSystem AUDIT_CONFIG ''SESS-AB12CD34-lq3k9x2a'' ''2024-01-01 12:00:00''
       (demo_rnd 0)"

definition demo_calls :: "Call list" where
  "demo_calls =
     [(demo_rnd 1, ''proof'', ''ZK-SNARK proof generated'', Some [(''complexity'', ''high'')]),
      (demo_rnd 2, ''inference'', ''AI Session initialized'', Some [(''sensitivity'', ''high'')]),
      (demo_rnd 3, ''verification'', ''Proof validation completed'', Some [(''validator'', ''plonk'')]),
      (demo_rnd 4, ''inference'', ''Text generation completed'', Some [(''tokens'', ''248'')]),
      (demo_rnd 5, ''proof'', ''Circuit compilation finished'', Some [(''constraints'', ''982344'')]),
      (demo_rnd 6, ''system'', ''Periodic integrity check'', Some [(''checkType'', ''full-scan'')]),
      (demo_rnd 7, ''verification'', ''On-chain verification submitted'', Some [(''slot'', ''283117882'')]),
      (demo_rnd 8, ''inference'', ''Model inference completed'', Some [(''batchSize'', ''16'')])]"

definition demo_nine :: PrivacyAuditSystem where
  "demo_nine = recordEvents AUDIT_CONFIG demo_calls demo_new"



definition demo_four :: "Call list" where
  "demo_four =
     [(demo_rnd 1, ''system'', ''Health check completed'', None),
      (demo_rnd 2, ''proof'', ''ZK proof generated'', Some [(''complexity'', ''high'')]),
      (demo_rnd 3, ''inference'', ''Model inference started'', Some [(''sensitivity'', ''high'')]),
      (demo_rnd 4, ''verification'', ''Signature verified'', None)]"

definition demo_three :: AuditConfig where
  "demo_three = AUDIT_CONFIG\<lparr>maxEntries := 3\<rparr>"



section \<open>Properties\<close>

subsection \<open>What one \<open>recordEvent\<close> does\<close>

declare recordEvent.simps [simp del] autoExport_call.simps [simp del]
  exportAuditLog_start.simps [simp del] toString_nat.simps [simp del]

lemma exportAuditLog_start_busy: "isExporting s \<Longrightarrow> exportAuditLog_start cfg rnd s = s"
  by (simp add: exportAuditLog_start.simps)

lemma autoExport_call_busy: "isExporting s \<Longrightarrow> autoExport_call cfg rnd s = s"
  by (simp add: autoExport_call.simps exportAuditLog_start_busy)

lemma recordEvent_busy:
  "isExporting s \<Longrightarrow>
   recordEvent cfg rnd type msg m s =
     s\<lparr>auditLog := push_retain cfg (mk_entry (rnd 0) (sessionId s) type msg m) (auditLog s)\<rparr>"
  by (simp add: recordEvent.simps [of cfg rnd type msg m s] autoExport_call_busy)

text \<open>
  The mutual recursion unfolded: the nested \<open>recordEvent\<close> runs with \<open>isExporting\<close> set,
  so its own call of \<open>autoExport\<close> returns at once.
\<close>

lemma recordEvent_unfold:
  "recordEvent cfg rnd type msg m s =
     (if autoExport cfg \<and>
         length (push_retain cfg (mk_entry (rnd 0) (sessionId s) type msg m) (auditLog s)) mod 10 = 0 \<and>
         \<not> isExporting s
      then s\<lparr>auditLog :=
               push_retain cfg
                 (start_entry rnd (sessionId s)
                    (length (push_retain cfg (mk_entry (rnd 0) (sessionId s) type msg m) (auditLog s))))
                 (push_retain cfg (mk_entry (rnd 0) (sessionId s) type msg m) (auditLog s)),
             isExporting := True\<rparr>
      else s\<lparr>auditLog := push_retain cfg (mk_entry (rnd 0) (sessionId s) type msg m) (auditLog s)\<rparr>)"
  by (simp add: recordEvent.simps [of cfg rnd type msg m s] autoExport_call.simps
      exportAuditLog_start.simps recordEvent_busy autoExport_call_busy start_entry_def numeral_2_eq_2)

lemma length_push_retain:
  assumes "0 < maxEntries cfg"
  shows "length (push_retain cfg e log) = min (nat (maxEntries cfg)) (Suc (length log))"
  using assms by (auto simp: push_retain_def slice_from_def Let_def)

lemma push_retain_lastn:
  assumes "0 < maxEntries cfg"
  shows "push_retain cfg e log = lastn (nat (maxEntries cfg)) (log @ [e])"
  using assms by (auto simp: push_retain_def slice_from_def Let_def lastn_def nat_diff_distrib' nat_add_distrib)

lemma lastn_lastn_append: "lastn n (lastn n xs @ ys) = lastn n (xs @ ys)"
proof -
  have "length xs + length ys - (length xs - n + n) + (length xs - n) = length xs + length ys - n"
    by arith
  then show ?thesis by (simp add: lastn_def)
qed


lemma length_lastn: "length (lastn n xs) = min n (length xs)"
  by (simp add: lastn_def)

lemma mem_lastn: "length ys < n \<Longrightarrow> e \<in> set (lastn n (xs @ e # ys))"
  by (simp add: lastn_def)

lemma set_push_retain: "set (push_retain cfg e log) \<subseteq> insert e (set log)"
  by (auto simp: push_retain_def slice_from_def Let_def dest: in_set_dropD)

lemma recordEvent_log:
  assumes "0 < maxEntries cfg"
  shows "auditLog (recordEvent cfg rnd type msg m s) =
           lastn (nat (maxEntries cfg))
             (auditLog s @ mk_entry (rnd 0) (sessionId s) type msg m #
              auto_entries cfg rnd s
                (push_retain cfg (mk_entry (rnd 0) (sessionId s) type msg m) (auditLog s)))"
proof -
  let ?e = "mk_entry (rnd 0) (sessionId s) type msg m"
  let ?l1 = "push_retain cfg ?e (auditLog s)"
  show ?thesis
  proof (cases "autoExport cfg \<and> length ?l1 mod 10 = 0 \<and> \<not> isExporting s")
    case True
    then have "auditLog (recordEvent cfg rnd type msg m s) =
        push_retain cfg (start_entry rnd (sessionId s) (length ?l1)) ?l1"
      by (simp add: recordEvent_unfold)
    also have "\<dots> = lastn (nat (maxEntries cfg))
        (lastn (nat (maxEntries cfg)) (auditLog s @ [?e]) @ [start_entry rnd (sessionId s) (length ?l1)])"
      using assms by (simp add: push_retain_lastn)
    also have "\<dots> = lastn (nat (maxEntries cfg))
        ((auditLog s @ [?e]) @ [start_entry rnd (sessionId s) (length ?l1)])"
      by (rule lastn_lastn_append)
    finally show ?thesis using True by (simp add: auto_entries_def)
  next
    case False
    then have "auditLog (recordEvent cfg rnd type msg m s) = ?l1"
      by (auto simp add: recordEvent_unfold)
    then show ?thesis using False assms by (auto simp add: auto_entries_def push_retain_lastn)
  qed
qed

lemma recordEvent_sessionId: "sessionId (recordEvent cfg rnd type msg m s) = sessionId s"
  by (simp add: recordEvent_unfold)


lemma auto_entries_length: "length (auto_entries cfg rnd s l) \<le> 1"
  by (simp add: auto_entries_def)

lemma auto_entries_nonempty:
  assumes "0 < maxEntries cfg" and "auto_entries cfg rnd s (push_retain cfg e log) \<noteq> []"
  shows "10 \<le> maxEntries cfg"
proof -
  define k where "k = length (push_retain cfg e log)"
  from assms(2) have kmod: "k mod 10 = 0"
    by (simp add: auto_entries_def k_def split: if_splits)
  have kpos: "0 < k" and kle: "k \<le> nat (maxEntries cfg)"
    using assms(1) by (simp_all add: k_def length_push_retain)
  from kmod kpos have "10 \<le> k" by presburger
  with kle show ?thesis by linarith
qed

lemma recordEvent_mem:
  assumes "0 < maxEntries cfg"
  shows "mk_entry (rnd 0) (sessionId s) type msg m \<in> set (auditLog (recordEvent cfg rnd type msg m s))"
proof -
  let ?e = "mk_entry (rnd 0) (sessionId s) type msg m"
  let ?a = "auto_entries cfg rnd s (push_retain cfg ?e (auditLog s))"
  have "length ?a < nat (maxEntries cfg)"
  proof (cases "?a = []")
    case True
    then show ?thesis using assms by simp
  next
    case False
    then have "10 \<le> maxEntries cfg" using assms auto_entries_nonempty by blast
    then show ?thesis using auto_entries_length [of cfg rnd s "push_retain cfg ?e (auditLog s)"] by linarith
  qed
  then show ?thesis using assms by (simp add: recordEvent_log mem_lastn)
qed

lemma recordEvent_plain:
  assumes "int (Suc (length (auditLog s))) \<le> maxEntries cfg"
    and "Suc (length (auditLog s)) mod 10 \<noteq> 0"
  shows "recordEvent cfg rnd type msg m s =
           s\<lparr>auditLog := auditLog s @ [mk_entry (rnd 0) (sessionId s) type msg m]\<rparr>"
  using assms by (simp add: recordEvent_unfold push_retain_def)

lemma recordEvent_typed:
  assumes "valid_type type" and "typed_log (auditLog s)"
  shows "typed_log (auditLog (recordEvent cfg rnd type msg m s))"
proof -
  have e: "valid_type (entry_type (mk_entry (rnd 0) (sessionId s) type msg m))"
    using assms(1) by (simp add: mk_entry_def)
  have x: "valid_type (entry_type (start_entry rnd (sessionId s) n))" for n
    by (simp add: start_entry_def mk_entry_def valid_type_def)
  have step: "typed_log (push_retain cfg y l)"
    if "valid_type (entry_type y)" and "typed_log l" for y l
    using that set_push_retain [of cfg y l] by (auto simp: typed_log_def list_all_iff)
  show ?thesis
    using assms(2) e x by (simp add: recordEvent_unfold step)
qed

lemma getAuditTrail_state:
  "snd (getAuditTrail cfg rnd qt limit s) =
     recordEvent cfg rnd ''system''
       (''Audit trail queried - '' @ toString_nat (length (fst (getAuditTrail cfg rnd qt limit s))) @
        '' records retrieved'')
       (Some [(''limit'', (case limit of None \<Rightarrow> ''none'' | Some l \<Rightarrow> toString_int l)),
              (''queryTime'', qt @ ''ms'')]) s"
  by (simp add: getAuditTrail_def Let_def)











subsection \<open>The concrete run evaluated\<close>

lemma demo_new_eq:
  "demo_new =
     \<lparr>auditLog =
        [mk_entry (demo_rnd 0 0) ''SESS-AB12CD34-lq3k9x2a'' ''system''
           ''Privacy Audit System initialized''
           (Some [(''version'', ''2.1.0''), (''encryption'', ''ZK-SNARK''),
                  (''sessionId'', ''SESS-AB12CD34-lq3k9x2a'')])],
      sessionId = ''SESS-AB12CD34-lq3k9x2a'', isExporting = False,
      startupTime = ''2024-01-01 12:00:00''\<rparr>"
  by (simp add: demo_new_def new_PrivacyAuditSystem_def recordEvent_plain AUDIT_CONFIG_def
      encryptionLevel_str_def)

lemma demo_nine_eq:
  "demo_nine =
     demo_new\<lparr>auditLog := auditLog demo_new @ map (entry_of ''SESS-AB12CD34-lq3k9x2a'') demo_calls\<rparr>"
  by (simp add: demo_nine_def demo_calls_def demo_new_eq recordEvent_plain AUDIT_CONFIG_def
      entry_of_def)

lemma demo_nine_facts:
  shows "length (auditLog demo_nine) = 9"
    and "isExporting demo_nine = False"
    and "sessionId demo_nine = ''SESS-AB12CD34-lq3k9x2a''"
  by (simp_all add: demo_nine_eq demo_calls_def demo_new_eq)



subsection \<open>C1: the retention policy\<close>





subsection \<open>C2: the risk level\<close>

text \<open>
  C2. \<open>calculateRiskLevel\<close> is the rule of the specification on every category and
  metadata; the entry that \<open>recordEvent\<close> builds carries that level whatever the draw,
  the session, the message and the state are, and it is the entry recorded in the log.
\<close>

theorem riskLevel_rule:
  "calculateRiskLevel c m = spec_riskLevel c (meta_map m) \<and>
   riskLevel (mk_entry d sid c msg m) = spec_riskLevel c (meta_map m) \<and>
   (0 < maxEntries cfg \<longrightarrow>
      mk_entry (rnd 0) (sessionId s) c msg m \<in> set (auditLog (recordEvent cfg rnd c msg m s)))"
proof -
  have "calculateRiskLevel c m = spec_riskLevel c (meta_map m)"
    by (cases m) (simp_all add: calculateRiskLevel_def spec_riskLevel_def meta_map_def)
  moreover have "riskLevel (mk_entry d sid c msg m) = calculateRiskLevel c m"
    by (simp add: mk_entry_def)
  ultimately show ?thesis using recordEvent_mem by simp
qed

theorem riskLevel_rule_witness:
  "0 < maxEntries AUDIT_CONFIG \<and>
   calculateRiskLevel ''inference'' (Some [(''sensitivity'', ''high'')]) = HIGH \<and>
   riskLevel (mk_entry (demo_draw 3) ''SESS-1'' ''inference'' ''m'' (Some [(''sensitivity'', ''high'')])) = HIGH \<and>
   mk_entry (demo_rnd 1 0) (sessionId demo_new) ''inference'' ''m'' (Some [(''sensitivity'', ''high'')])
     \<in> set (auditLog (recordEvent AUDIT_CONFIG (demo_rnd 1) ''inference'' ''m''
                (Some [(''sensitivity'', ''high'')]) demo_new))"
  using riskLevel_rule [of "''inference''" "Some [(''sensitivity'', ''high'')]" "demo_draw 3"
      "''SESS-1''" "''m''" AUDIT_CONFIG "demo_rnd 1" demo_new]
  by (simp add: AUDIT_CONFIG_def spec_riskLevel_def meta_map_def)

subsection \<open>C3: the limit of \<open>getAuditTrail\<close>\<close>

text \<open>
  For a positive limit \<open>k\<close> the result is the last \<open>min k size\<close> entries, and without a
  limit it is the whole log.
\<close>

lemma getAuditTrail_records:
  "fst (getAuditTrail cfg rnd qt limit s) =
     (case limit of None \<Rightarrow> auditLog s
      | Some l \<Rightarrow> if l \<noteq> 0 then slice_from (- l) (auditLog s) else auditLog s)"
  by (simp add: getAuditTrail_def Let_def)

lemma getAuditTrail_positive_limit:
  assumes "0 < k"
  shows "fst (getAuditTrail cfg rnd qt (Some k) s) = lastn (nat k) (auditLog s)"
    and "length (fst (getAuditTrail cfg rnd qt (Some k) s)) = min (nat k) (length (auditLog s))"
    and "fst (getAuditTrail cfg rnd qt None s) = auditLog s"
  using assms by (auto simp: getAuditTrail_records slice_from_def lastn_def nat_diff_distrib')

text \<open>
  C3 at the limit \<open>0\<close>: on the recorder holding nine entries \<open>getAuditTrail(0)\<close> returns
  all nine entries, not the empty sequence.
\<close>

theorem getAuditTrail_zero_limit:
  "length (auditLog demo_nine) = 9 \<and>
   fst (getAuditTrail AUDIT_CONFIG (demo_rnd 9) ''42.17'' (Some 0) demo_nine) = auditLog demo_nine \<and>
   fst (getAuditTrail AUDIT_CONFIG (demo_rnd 9) ''42.17'' (Some 0) demo_nine) \<noteq> []"
proof -
  have "fst (getAuditTrail AUDIT_CONFIG (demo_rnd 9) ''42.17'' (Some 0) demo_nine) = auditLog demo_nine"
    by (simp add: getAuditTrail_records)
  moreover have "length (auditLog demo_nine) = 9" by (rule demo_nine_facts)
  ultimately show ?thesis by auto
qed

subsection \<open>C4: statistics\<close>






















subsection \<open>C5: what \<open>recordEvent\<close> returns\<close>

text \<open>
  The claim says that the call returns the entry it created. \<open>recordEvent\<close> is \<open>void\<close>:
  the value of the call is \<open>undefined\<close>, not the entry.
\<close>

theorem recordEvent_value_counterexample:
  "recordEvent_value AUDIT_CONFIG (demo_rnd 1) ''proof'' ''ZK proof generated'' None demo_new \<noteq>
     Some (mk_entry (demo_rnd 1 0) (sessionId demo_new) ''proof'' ''ZK proof generated'' None)"
  by (simp add: recordEvent_value_def)

text \<open>
  C5, amended. \<open>recordEvent\<close> returns nothing. The entry it creates has the generated id,
  the current timestamp, the session id of the recorder, one of the statuses
  \<open>Verified\<close>, \<open>Recorded\<close>, \<open>Pending\<close> and the computed risk level; with \<open>maxEntries\<close>
  positive it is in the log when the call returns, after the older entries and before
  the entry of the automatic export when that ran.
\<close>

theorem recordEvent_records_entry:
  "recordEvent_value cfg rnd type msg m s = None \<and>
   entry_id (mk_entry (rnd 0) (sessionId s) type msg m) = generateId ''AUD'' (rnd 0) \<and>
   timestamp (mk_entry (rnd 0) (sessionId s) type msg m) = now_str (rnd 0) \<and>
   entry_sessionId (mk_entry (rnd 0) (sessionId s) type msg m) = sessionId s \<and>
   status (mk_entry (rnd 0) (sessionId s) type msg m) \<in> {Verified, Recorded, Pending} \<and>
   riskLevel (mk_entry (rnd 0) (sessionId s) type msg m) = calculateRiskLevel type m \<and>
   (0 < maxEntries cfg \<longrightarrow>
      mk_entry (rnd 0) (sessionId s) type msg m \<in> set (auditLog (recordEvent cfg rnd type msg m s)) \<and>
      auditLog (recordEvent cfg rnd type msg m s) =
        lastn (nat (maxEntries cfg))
          (auditLog s @ mk_entry (rnd 0) (sessionId s) type msg m #
           auto_entries cfg rnd s
             (push_retain cfg (mk_entry (rnd 0) (sessionId s) type msg m) (auditLog s))))"
proof -
  have "rand_index (rnd 0) mod 3 < 3" by simp
  then have "rand_index (rnd 0) mod 3 = 0 \<or> rand_index (rnd 0) mod 3 = 1 \<or>
      rand_index (rnd 0) mod 3 = 2" by linarith
  then have st: "status (mk_entry (rnd 0) (sessionId s) type msg m) \<in> {Verified, Recorded, Pending}"
    by (auto simp: mk_entry_def randomElement_def)
  show ?thesis
    using st recordEvent_mem [of cfg rnd s type msg m] recordEvent_log [of cfg rnd type msg m s]
    by (simp add: recordEvent_value_def mk_entry_def)
qed

theorem recordEvent_records_entry_witness:
  "0 < maxEntries AUDIT_CONFIG \<and>
   recordEvent_value AUDIT_CONFIG (demo_rnd 1) ''proof'' ''ZK proof generated'' None demo_new = None \<and>
   mk_entry (demo_rnd 1 0) (sessionId demo_new) ''proof'' ''ZK proof generated'' None
     \<in> set (auditLog (recordEvent AUDIT_CONFIG (demo_rnd 1) ''proof'' ''ZK proof generated'' None
                        demo_new))"
proof -
  have h: "0 < maxEntries AUDIT_CONFIG" by (simp add: AUDIT_CONFIG_def)
  show ?thesis
    using recordEvent_records_entry [of AUDIT_CONFIG "demo_rnd 1" "''proof''"
        "''ZK proof generated''" None demo_new] h
    by blast
qed

subsection \<open>C6: a category outside the enumeration\<close>

text \<open>
  The claim says that such a call is rejected and leaves the log unchanged. On the fresh
  recorder a call with the type \<open>telemetry\<close> changes the recorder: the entry is appended
  with the risk level \<open>LOW\<close>.
\<close>

theorem unknown_category_counterexample:
  "\<not> valid_type ''telemetry'' \<and>
   recordEvent AUDIT_CONFIG (demo_rnd 1) ''telemetry'' ''cache warmed'' None demo_new \<noteq> demo_new \<and>
   auditLog (recordEvent AUDIT_CONFIG (demo_rnd 1) ''telemetry'' ''cache warmed'' None demo_new) =
     auditLog demo_new @
     [mk_entry (demo_rnd 1 0) (sessionId demo_new) ''telemetry'' ''cache warmed'' None] \<and>
   riskLevel (mk_entry (demo_rnd 1 0) (sessionId demo_new) ''telemetry'' ''cache warmed'' None) = LOW"
proof -
  have "recordEvent AUDIT_CONFIG (demo_rnd 1) ''telemetry'' ''cache warmed'' None demo_new =
      demo_new\<lparr>auditLog := auditLog demo_new @
        [mk_entry (demo_rnd 1 0) (sessionId demo_new) ''telemetry'' ''cache warmed'' None]\<rparr>"
    by (rule recordEvent_plain) (simp_all add: demo_new_eq AUDIT_CONFIG_def)
  moreover have "\<And>x. demo_new\<lparr>auditLog := auditLog demo_new @ [x]\<rparr> \<noteq> demo_new"
    by (simp add: demo_new_eq)
  ultimately show ?thesis
    by (simp add: valid_type_def mk_entry_def calculateRiskLevel_def)
qed

text \<open>
  C6, amended. \<open>recordEvent\<close> does not validate the category (its parameter type admits
  the four categories only). A call with any other string is not rejected: with
  \<open>maxEntries\<close> positive the entry is recorded with that type and the risk level
  \<open>LOW\<close>, and a log below \<open>maxEntries\<close> grows.
\<close>

theorem unknown_category_recorded:
  assumes "\<not> valid_type type" and "0 < maxEntries cfg"
  shows "mk_entry (rnd 0) (sessionId s) type msg m \<in> set (auditLog (recordEvent cfg rnd type msg m s)) \<and>
         entry_type (mk_entry (rnd 0) (sessionId s) type msg m) = type \<and>
         riskLevel (mk_entry (rnd 0) (sessionId s) type msg m) = LOW \<and>
         (int (length (auditLog s)) < maxEntries cfg \<longrightarrow>
            length (auditLog s) < length (auditLog (recordEvent cfg rnd type msg m s)))"
proof -
  have risk: "riskLevel (mk_entry (rnd 0) (sessionId s) type msg m) = LOW"
    using assms(1) by (simp add: mk_entry_def calculateRiskLevel_def valid_type_def)
  have ty: "entry_type (mk_entry (rnd 0) (sessionId s) type msg m) = type"
    by (simp add: mk_entry_def)
  have grow: "length (auditLog s) < length (auditLog (recordEvent cfg rnd type msg m s))"
    if "int (length (auditLog s)) < maxEntries cfg"
    using that assms(2) by (auto simp add: recordEvent_unfold length_push_retain)
  have mem: "mk_entry (rnd 0) (sessionId s) type msg m
      \<in> set (auditLog (recordEvent cfg rnd type msg m s))"
    using assms(2) by (rule recordEvent_mem)
  show ?thesis
    using risk ty grow mem by blast
qed

theorem unknown_category_recorded_witness:
  "\<not> valid_type ''telemetry'' \<and> 0 < maxEntries AUDIT_CONFIG \<and>
   mk_entry (demo_rnd 1 0) (sessionId demo_new) ''telemetry'' ''cache warmed'' None
     \<in> set (auditLog (recordEvent AUDIT_CONFIG (demo_rnd 1) ''telemetry'' ''cache warmed'' None
                        demo_new)) \<and>
   riskLevel (mk_entry (demo_rnd 1 0) (sessionId demo_new) ''telemetry'' ''cache warmed'' None) = LOW"
proof -
  have h1: "\<not> valid_type ''telemetry''" by (simp add: valid_type_def)
  have h2: "0 < maxEntries AUDIT_CONFIG" by (simp add: AUDIT_CONFIG_def)
  show ?thesis
    using unknown_category_recorded [OF h1 h2, of "demo_rnd 1" demo_new "''cache warmed''" None] h1 h2
    by blast
qed

subsection \<open>C7: four appends on a new recorder\<close>

text \<open>
  The claim gives \<open>{low: 1, high: 2, medium: 1}\<close> for \<open>byRiskLevel\<close>. The constructor has
  recorded its own system entry, so the count for \<open>LOW\<close> is \<open>2\<close>.
\<close>

theorem four_appends_counterexample:
  "count_of (byRiskLevel (fst (getStats (recordEvents AUDIT_CONFIG demo_four demo_new)))) LOW \<noteq> 1 \<and>
   byRiskLevel (fst (getStats (recordEvents AUDIT_CONFIG demo_four demo_new))) =
     [(LOW, 2), (HIGH, 2), (MEDIUM, 1)]"
proof -
  have "recordEvents AUDIT_CONFIG demo_four demo_new =
      \<lparr>auditLog =
         [mk_entry (demo_rnd 0 0) ''SESS-AB12CD34-lq3k9x2a'' ''system''
            ''Privacy Audit System initialized''
            (Some [(''version'', ''2.1.0''), (''encryption'', ''ZK-SNARK''),
                   (''sessionId'', ''SESS-AB12CD34-lq3k9x2a'')]),
          mk_entry (demo_rnd 1 0) ''SESS-AB12CD34-lq3k9x2a'' ''system'' ''Health check completed'' None,
          mk_entry (demo_rnd 2 0) ''SESS-AB12CD34-lq3k9x2a'' ''proof'' ''ZK proof generated''
            (Some [(''complexity'', ''high'')]),
          mk_entry (demo_rnd 3 0) ''SESS-AB12CD34-lq3k9x2a'' ''inference'' ''Model inference started''
            (Some [(''sensitivity'', ''high'')]),
          mk_entry (demo_rnd 4 0) ''SESS-AB12CD34-lq3k9x2a'' ''verification'' ''Signature verified''
            None],
       sessionId = ''SESS-AB12CD34-lq3k9x2a'', isExporting = False,
       startupTime = ''2024-01-01 12:00:00''\<rparr>"
    by (simp add: demo_four_def demo_new_eq recordEvent_plain AUDIT_CONFIG_def)
  then show ?thesis
    by (simp add: getStats_def count_entry_def mk_entry_def calculateRiskLevel_def count_of_def)
qed

lemma four_appends:
  assumes "map_of kp ''complexity'' = Some ''high''" and "map_of ki ''sensitivity'' = Some ''high''"
  shows "recordEvents AUDIT_CONFIG
           [(r1, ''system'', g1, m1), (r2, ''proof'', g2, Some kp),
            (r3, ''inference'', g3, Some ki), (r4, ''verification'', g4, m4)]
           (new_PrivacyAuditSystem AUDIT_CONFIG sid start rndc) =
         \<lparr>auditLog =
            [mk_entry (rndc 0) sid ''system'' ''Privacy Audit System initialized''
               (Some [(''version'', ''2.1.0''), (''encryption'', ''ZK-SNARK''), (''sessionId'', sid)]),
             mk_entry (r1 0) sid ''system'' g1 m1,
             mk_entry (r2 0) sid ''proof'' g2 (Some kp),
             mk_entry (r3 0) sid ''inference'' g3 (Some ki),
             mk_entry (r4 0) sid ''verification'' g4 m4],
          sessionId = sid, isExporting = False, startupTime = start\<rparr>"
  by (simp add: new_PrivacyAuditSystem_def recordEvent_plain AUDIT_CONFIG_def
      encryptionLevel_str_def)

text \<open>
  C7, amended. On a new recorder under \<open>AUDIT_CONFIG\<close>, appending entries of the
  categories system, proof with complexity high, inference with sensitivity high, and
  verification gives these four entries the risk levels \<open>LOW\<close>, \<open>HIGH\<close>, \<open>HIGH\<close>,
  \<open>MEDIUM\<close> in that order, after the \<open>LOW\<close> entry of the constructor, and \<open>byRiskLevel\<close> is
  then \<open>{LOW: 2, HIGH: 2, MEDIUM: 1}\<close>.
\<close>

theorem four_appends_risk:
  assumes "map_of kp ''complexity'' = Some ''high''" and "map_of ki ''sensitivity'' = Some ''high''"
  shows "map riskLevel
           (auditLog
              (recordEvents AUDIT_CONFIG
                 [(r1, ''system'', g1, m1), (r2, ''proof'', g2, Some kp),
                  (r3, ''inference'', g3, Some ki), (r4, ''verification'', g4, m4)]
                 (new_PrivacyAuditSystem AUDIT_CONFIG sid start rndc))) =
           [LOW, LOW, HIGH, HIGH, MEDIUM] \<and>
         byRiskLevel
           (fst (getStats
              (recordEvents AUDIT_CONFIG
                 [(r1, ''system'', g1, m1), (r2, ''proof'', g2, Some kp),
                  (r3, ''inference'', g3, Some ki), (r4, ''verification'', g4, m4)]
                 (new_PrivacyAuditSystem AUDIT_CONFIG sid start rndc)))) =
           [(LOW, 2), (HIGH, 2), (MEDIUM, 1)]"
  unfolding four_appends [OF assms]
  using assms by (simp add: getStats_def count_entry_def mk_entry_def calculateRiskLevel_def)

theorem four_appends_risk_witness:
  "map_of [(''complexity'', ''high'')] ''complexity'' = Some ''high'' \<and>
   map_of [(''sensitivity'', ''high'')] ''sensitivity'' = Some ''high'' \<and>
   map riskLevel (auditLog (recordEvents AUDIT_CONFIG demo_four demo_new)) =
     [LOW, LOW, HIGH, HIGH, MEDIUM] \<and>
   byRiskLevel (fst (getStats (recordEvents AUDIT_CONFIG demo_four demo_new))) =
     [(LOW, 2), (HIGH, 2), (MEDIUM, 1)]"
proof -
  have h1: "map_of [(''complexity'', ''high'')] ''complexity'' = Some ''high''" by simp
  have h2: "map_of [(''sensitivity'', ''high'')] ''sensitivity'' = Some ''high''" by simp
  show ?thesis
    unfolding demo_four_def demo_new_def
    using four_appends_risk [OF h1 h2] h1 h2 by blast
qed

subsection \<open>C8: the session id\<close>

lemma push_retain_session:
  "entry_sessionId e = sid \<Longrightarrow> list_all (\<lambda>x. entry_sessionId x = sid) log \<Longrightarrow>
   list_all (\<lambda>x. entry_sessionId x = sid) (push_retain cfg e log)"
  using set_push_retain [of cfg e log] by (auto simp: list_all_iff)

lemma mk_entry_session [simp]: "entry_sessionId (mk_entry d sid type msg m) = sid"
  by (simp add: mk_entry_def)

lemma recordEvent_session_inv:
  "session_inv s \<Longrightarrow> session_inv (recordEvent cfg rnd type msg m s)"
  by (simp add: session_inv_def recordEvent_unfold push_retain_session start_entry_def)

lemma exportAuditLog_start_session:
  "session_inv s \<Longrightarrow>
   session_inv (exportAuditLog_start cfg rnd s) \<and>
   sessionId (exportAuditLog_start cfg rnd s) = sessionId s"
proof (cases "isExporting s")
  case True
  assume "session_inv s"
  with True show ?thesis by (simp add: exportAuditLog_start_busy)
next
  case False
  assume "session_inv s"
  then have "session_inv (s\<lparr>isExporting := True\<rparr>)" by (simp add: session_inv_def)
  with False show ?thesis
    by (simp add: exportAuditLog_start.simps recordEvent_session_inv recordEvent_sessionId)
qed

lemma exportAuditLog_finish_session:
  "session_inv s \<Longrightarrow>
   session_inv (exportAuditLog_finish cfg rnd exportId fpath fsize err s) \<and>
   sessionId (exportAuditLog_finish cfg rnd exportId fpath fsize err s) = sessionId s"
proof -
  assume inv: "session_inv s"
  have "\<And>type msg m. session_inv ((recordEvent cfg rnd type msg m s)\<lparr>isExporting := False\<rparr>)"
    using recordEvent_session_inv [OF inv] by (simp add: session_inv_def)
  then show ?thesis
    by (cases err) (simp_all add: exportAuditLog_finish_def recordEvent_sessionId)
qed

lemma slice_from_subset: "set (slice_from i xs) \<subseteq> set xs"
  by (auto simp: slice_from_def dest: in_set_dropD)

lemma getAuditTrail_records_subset: "set (fst (getAuditTrail cfg rnd qt limit s)) \<subseteq> set (auditLog s)"
  by (auto simp: getAuditTrail_def Let_def split: option.splits dest: subsetD [OF slice_from_subset])

text \<open>
  C8. The constructor gives the recorder its session id and a log whose entries all
  carry it; \<open>recordEvent\<close>, \<open>getAuditTrail\<close>, \<open>getStats\<close> and both halves of
  \<open>exportAuditLog\<close> keep the session id and keep every entry of the log, and every
  entry \<open>getAuditTrail\<close> returns, carrying it.
\<close>

theorem session_constant:
  "session_inv (new_PrivacyAuditSystem cfg sid start rndc) \<and>
   sessionId (new_PrivacyAuditSystem cfg sid start rndc) = sid \<and>
   (session_inv s \<longrightarrow>
      session_inv (recordEvent cfg rnd type msg m s) \<and>
      sessionId (recordEvent cfg rnd type msg m s) = sessionId s \<and>
      session_inv (snd (getAuditTrail cfg rnd qt limit s)) \<and>
      sessionId (snd (getAuditTrail cfg rnd qt limit s)) = sessionId s \<and>
      list_all (\<lambda>e. entry_sessionId e = sessionId s) (fst (getAuditTrail cfg rnd qt limit s)) \<and>
      session_inv (snd (getStats s)) \<and>
      sessionId (snd (getStats s)) = sessionId s \<and>
      session_inv (exportAuditLog_start cfg rnd s) \<and>
      sessionId (exportAuditLog_start cfg rnd s) = sessionId s \<and>
      session_inv (exportAuditLog_finish cfg rnd exportId fpath fsize err s) \<and>
      sessionId (exportAuditLog_finish cfg rnd exportId fpath fsize err s) = sessionId s)"
proof -
  have "session_inv \<lparr>auditLog = [], sessionId = sid, isExporting = False, startupTime = start\<rparr>"
    by (simp add: session_inv_def)
  then have new: "session_inv (new_PrivacyAuditSystem cfg sid start rndc)"
    unfolding new_PrivacyAuditSystem_def by (rule recordEvent_session_inv)
  have sid: "sessionId (new_PrivacyAuditSystem cfg sid start rndc) = sid"
    by (simp add: new_PrivacyAuditSystem_def recordEvent_sessionId)
  have step: "session_inv (recordEvent cfg rnd type msg m s) \<and>
      sessionId (recordEvent cfg rnd type msg m s) = sessionId s \<and>
      session_inv (snd (getAuditTrail cfg rnd qt limit s)) \<and>
      sessionId (snd (getAuditTrail cfg rnd qt limit s)) = sessionId s \<and>
      list_all (\<lambda>e. entry_sessionId e = sessionId s) (fst (getAuditTrail cfg rnd qt limit s)) \<and>
      session_inv (snd (getStats s)) \<and>
      sessionId (snd (getStats s)) = sessionId s" if inv: "session_inv s"
  proof -
    have "list_all (\<lambda>e. entry_sessionId e = sessionId s) (fst (getAuditTrail cfg rnd qt limit s))"
      using inv getAuditTrail_records_subset [of cfg rnd qt limit s]
      by (auto simp: session_inv_def list_all_iff)
    then show ?thesis
      using inv
      by (simp add: recordEvent_session_inv recordEvent_sessionId getAuditTrail_def Let_def
          getStats_def)
  qed
  show ?thesis
    using new sid step exportAuditLog_start_session exportAuditLog_finish_session by blast
qed

theorem session_constant_witness:
  "session_inv demo_new \<and>
   sessionId demo_new = ''SESS-AB12CD34-lq3k9x2a'' \<and>
   session_inv (recordEvent AUDIT_CONFIG (demo_rnd 1) ''proof'' ''ZK proof generated'' None demo_new) \<and>
   sessionId (recordEvent AUDIT_CONFIG (demo_rnd 1) ''proof'' ''ZK proof generated'' None demo_new) =
     sessionId demo_new \<and>
   session_inv (snd (getAuditTrail AUDIT_CONFIG (demo_rnd 1) ''42.17'' (Some 8) demo_new)) \<and>
   session_inv (snd (getStats demo_new))"
  using session_constant [where cfg = AUDIT_CONFIG and sid = "''SESS-AB12CD34-lq3k9x2a''"
      and start = "''2024-01-01 12:00:00''" and rndc = "demo_rnd 0" and s = demo_new
      and rnd = "demo_rnd 1" and type = "''proof''" and msg = "''ZK proof generated''"
      and m = None and qt = "''42.17''" and limit = "Some 8"]
  unfolding demo_new_def by blast

subsection \<open>C9: the entry \<open>getAuditTrail\<close> records\<close>

text \<open>
  The claim says that after the call the log is one entry longer. Under \<open>AUDIT_CONFIG\<close>,
  on the recorder holding nine entries, the entry about the query is the tenth, the
  automatic export runs, and the log is two entries longer.
\<close>

theorem getAuditTrail_counterexample:
  "int (length (auditLog demo_nine)) + 2 \<le> maxEntries AUDIT_CONFIG \<and>
   length (auditLog (snd (getAuditTrail AUDIT_CONFIG (demo_rnd 9) ''42.17'' (Some 8) demo_nine))) =
     length (auditLog demo_nine) + 2"
proof -
  let ?q = "query_entry (demo_rnd 9) (sessionId demo_nine) ''42.17'' (Some 8) 8"
  have n: "length (fst (getAuditTrail AUDIT_CONFIG (demo_rnd 9) ''42.17'' (Some 8) demo_nine)) = 8"
    by (simp add: getAuditTrail_records slice_from_def demo_nine_facts)
  have l1: "\<And>e. push_retain AUDIT_CONFIG e (auditLog demo_nine) = auditLog demo_nine @ [e]"
    by (simp add: push_retain_def AUDIT_CONFIG_def demo_nine_facts)
  have l2: "\<And>e x. push_retain AUDIT_CONFIG x (auditLog demo_nine @ [e]) = auditLog demo_nine @ [e, x]"
    by (simp add: push_retain_def AUDIT_CONFIG_def demo_nine_facts)
  have "length (auditLog (snd (getAuditTrail AUDIT_CONFIG (demo_rnd 9) ''42.17'' (Some 8) demo_nine))) = 11"
    by (simp only: getAuditTrail_state n) (simp add: recordEvent_unfold l1 l2 demo_nine_facts, simp add: AUDIT_CONFIG_def)
  then show ?thesis by (simp add: demo_nine_facts AUDIT_CONFIG_def)
qed

lemma getAuditTrail_records_drop: "\<exists>n. fst (getAuditTrail cfg rnd qt limit s) = drop n (auditLog s)"
proof (cases "fst (getAuditTrail cfg rnd qt limit s) = auditLog s")
  case True
  then have "fst (getAuditTrail cfg rnd qt limit s) = drop 0 (auditLog s)" by simp
  then show ?thesis by blast
next
  case False
  then obtain l where "fst (getAuditTrail cfg rnd qt limit s) = slice_from (- l) (auditLog s)"
    by (auto simp: getAuditTrail_records split: option.splits if_splits)
  then show ?thesis by (auto simp: slice_from_def)
qed

text \<open>
  C9, amended. With \<open>maxEntries\<close> positive: the result of \<open>getAuditTrail\<close> is a suffix of
  the log as it was before the call and does not depend on the draws; the call then
  records one system entry about the query, followed by the entry of the automatic
  export when that runs (at most one); the log afterwards is the last \<open>maxEntries\<close>
  entries of the old log with these entries appended. When the automatic export does not
  run and the log was below \<open>maxEntries\<close>, the log is exactly one entry longer.
\<close>

theorem getAuditTrail_effect:
  assumes "0 < maxEntries cfg"
  shows "(\<exists>n. fst (getAuditTrail cfg rnd qt limit s) = drop n (auditLog s)) \<and>
         fst (getAuditTrail cfg rnd qt limit s) = fst (getAuditTrail cfg' rnd' qt' limit s) \<and>
         entry_type (query_entry rnd (sessionId s) qt limit
                       (length (fst (getAuditTrail cfg rnd qt limit s)))) = ''system'' \<and>
         auditLog (snd (getAuditTrail cfg rnd qt limit s)) =
           lastn (nat (maxEntries cfg))
             (auditLog s @
              query_entry rnd (sessionId s) qt limit (length (fst (getAuditTrail cfg rnd qt limit s))) #
              auto_entries cfg rnd s
                (push_retain cfg
                   (query_entry rnd (sessionId s) qt limit
                      (length (fst (getAuditTrail cfg rnd qt limit s))))
                   (auditLog s))) \<and>
         length (auditLog (snd (getAuditTrail cfg rnd qt limit s))) =
           min (nat (maxEntries cfg))
             (length (auditLog s) + 1 +
              length (auto_entries cfg rnd s
                        (push_retain cfg
                           (query_entry rnd (sessionId s) qt limit
                              (length (fst (getAuditTrail cfg rnd qt limit s))))
                           (auditLog s)))) \<and>
         length (auto_entries cfg rnd s
                   (push_retain cfg
                      (query_entry rnd (sessionId s) qt limit
                         (length (fst (getAuditTrail cfg rnd qt limit s))))
                      (auditLog s))) \<le> 1 \<and>
         (\<not> autoExport cfg \<or> isExporting s \<or> Suc (length (auditLog s)) mod 10 \<noteq> 0 \<longrightarrow>
            int (length (auditLog s)) < maxEntries cfg \<longrightarrow>
            length (auditLog (snd (getAuditTrail cfg rnd qt limit s))) = length (auditLog s) + 1)"
proof -
  let ?q = "query_entry rnd (sessionId s) qt limit (length (fst (getAuditTrail cfg rnd qt limit s)))"
  let ?a = "auto_entries cfg rnd s (push_retain cfg ?q (auditLog s))"
  have pre: "\<exists>n. fst (getAuditTrail cfg rnd qt limit s) = drop n (auditLog s)"
    by (rule getAuditTrail_records_drop)
  have indep: "fst (getAuditTrail cfg rnd qt limit s) = fst (getAuditTrail cfg' rnd' qt' limit s)"
    by (simp add: getAuditTrail_records)
  have sys: "entry_type ?q = ''system''"
    by (simp add: query_entry_def mk_entry_def)
  have log: "auditLog (snd (getAuditTrail cfg rnd qt limit s)) =
      lastn (nat (maxEntries cfg)) (auditLog s @ ?q # ?a)"
    using assms by (simp only: getAuditTrail_state recordEvent_log query_entry_def)
  have len: "length (auditLog (snd (getAuditTrail cfg rnd qt limit s))) =
      min (nat (maxEntries cfg)) (length (auditLog s) + 1 + length ?a)"
    by (simp add: log length_lastn)
  have one: "length ?a \<le> 1" by (rule auto_entries_length)
  have plain: "length (auditLog (snd (getAuditTrail cfg rnd qt limit s))) = length (auditLog s) + 1"
    if "\<not> autoExport cfg \<or> isExporting s \<or> Suc (length (auditLog s)) mod 10 \<noteq> 0"
      and "int (length (auditLog s)) < maxEntries cfg"
  proof -
    have "length (push_retain cfg ?q (auditLog s)) = Suc (length (auditLog s))"
      using that(2) assms by (simp add: length_push_retain)
    with that(1) have "?a = []" by (auto simp: auto_entries_def)
    with that(2) show ?thesis by (simp add: len)
  qed
  show ?thesis
    using pre indep sys log len one plain by blast
qed

theorem getAuditTrail_effect_witness:
  "0 < maxEntries AUDIT_CONFIG \<and>
   fst (getAuditTrail AUDIT_CONFIG (demo_rnd 9) ''42.17'' (Some 8) demo_nine) =
     fst (getAuditTrail demo_three (demo_rnd 1) ''20.00'' (Some 8) demo_nine) \<and>
   length (auditLog (snd (getAuditTrail AUDIT_CONFIG (demo_rnd 9) ''42.17'' (Some 8) demo_nine))) =
     min (nat (maxEntries AUDIT_CONFIG))
       (length (auditLog demo_nine) + 1 +
        length (auto_entries AUDIT_CONFIG (demo_rnd 9) demo_nine
                  (push_retain AUDIT_CONFIG
                     (query_entry (demo_rnd 9) (sessionId demo_nine) ''42.17'' (Some 8)
                        (length (fst (getAuditTrail AUDIT_CONFIG (demo_rnd 9) ''42.17'' (Some 8)
                                        demo_nine))))
                     (auditLog demo_nine))))"
proof -
  have h: "0 < maxEntries AUDIT_CONFIG" by (simp add: AUDIT_CONFIG_def)
  show ?thesis
    using getAuditTrail_effect [OF h, of "demo_rnd 9" "''42.17''" "Some 8" demo_nine demo_three
        "demo_rnd 1" "''20.00''"] h
    by blast
qed

subsection \<open>C10: \<open>getStats\<close> does not change the recorder\<close>

text \<open>
  C10. \<open>getStats\<close> returns the recorder as it was, so a second call returns the same
  statistics.
\<close>

theorem getStats_pure:
  "snd (getStats s) = s \<and> fst (getStats (snd (getStats s))) = fst (getStats s)"
  by (simp add: getStats_def)

end
